theory Spec2Isabelle
  imports Complex_Main "HOL-Library.Multiset" "HOL-Library.Sublist"
begin

section \<open>Python values shared by all modules\<close>

text \<open>
  Every \<^verbatim>\<open>raise ValueError(...)\<close> of the sources is one constructor of \<open>value_error\<close>,
  named after the raise site; the comment gives the message of the source.
  A Python \<^verbatim>\<open>str\<close> is a \<open>string\<close>; a \<open>char\<close> stands for the code point of the same number
  (the code points below 256).
\<close>

datatype value_error =
    EmptyAbbreviation                      \<comment> \<open>"empty abbreviation string"\<close>
  | NonAlphabeticAbbreviation              \<comment> \<open>"non-alphabetic abbreviation string: ..."\<close>
  | TooManyMatches string "string list"    \<comment> \<open>"too many strings match abbreviation: ..."\<close>
  | NoMatches string                       \<comment> \<open>"found no strings matching abbreviation: ..."\<close>
  | ProductNameEmpty                       \<comment> \<open>"product name empty or all whitespace"\<close>
  | CategoryNameEmpty                      \<comment> \<open>"facility category name empty or all whitespace"\<close>
  | RecipeNameEmpty                        \<comment> \<open>"recipe name empty or all whitespace"\<close>
  | RecipeOutputsEmpty                     \<comment> \<open>"recipe output collection is empty"\<close>
  | RecipeInputsEmpty                      \<comment> \<open>"recipe input collection is empty"\<close>
  | NotARational string                    \<comment> \<open>"string ... could not be read as a rational"\<close>
  | ArrowIndexOutOfBounds                  \<comment> \<open>"arrow line index out of bounds"\<close>
  | UnparsableArrowLine string             \<comment> \<open>"unable to parse arrow line: ..."\<close>
  | NametagBeforeEnd                       \<comment> \<open>"started to parse nametag line before end of recipe"\<close>
  | UnparsableNametagLine string           \<comment> \<open>"unable to parse nametag line: ..."\<close>
  | HowManyNotPositive                     \<comment> \<open>"RecipeProducer should not have howmany <= 0"\<close>
  | RecipeDoesNotProduceGoal               \<comment> \<open>"given recipe does not produce goal product"\<close>
  | ProductMustExistToCheck                \<comment> \<open>"product must exist to check if ignored"\<close>
  | ProductMustExistToSet                  \<comment> \<open>"product must exist to be set as ignored"\<close>
  | CrafterAlreadyConnected                \<comment> \<open>"cannot connect same crafter to a factory twice"\<close>
  | CrafterNotConnected                    \<comment> \<open>"crafter must be factory-connected to upgrade"\<close>
  | CrafterDoesNotProduceTarget            \<comment> \<open>"upgrading crafter does not produce target product"\<close>
  | UpgradedRateNotPositive                \<comment> \<open>"final upgraded crafter rate must be positive"\<close>

datatype error =
    ValueError value_error
  | UnboundLocalError string               \<comment> \<open>a local variable read before any assignment\<close>
  | NameError string                       \<comment> \<open>a name that is bound nowhere\<close>
  | ZeroDivisionError
  | KeyError

subsection \<open>Characters\<close>

definition code_point :: "char \<Rightarrow> nat" where
  "code_point c = of_char c"

text \<open>The class \<^verbatim>\<open>A-Z\<close> of a regular expression.\<close>

definition is_capital :: "char \<Rightarrow> bool" where
  "is_capital c = (65 \<le> code_point c \<and> code_point c \<le> 90)"

text \<open>The class \<^verbatim>\<open>0-9\<close> of a regular expression.\<close>

definition is_digit :: "char \<Rightarrow> bool" where
  "is_digit c = (48 \<le> code_point c \<and> code_point c \<le> 57)"

text \<open>\<^verbatim>\<open>str.isalpha\<close> on one character: the letters among the code points below 256.\<close>

definition isalpha_char :: "char \<Rightarrow> bool" where
  "isalpha_char c =
     (let n = code_point c in
        (65 \<le> n \<and> n \<le> 90) \<or> (97 \<le> n \<and> n \<le> 122) \<or> n = 170 \<or> n = 181 \<or> n = 186 \<or>
        (192 \<le> n \<and> n \<le> 214) \<or> (216 \<le> n \<and> n \<le> 246) \<or> (248 \<le> n \<and> n \<le> 255))"

text \<open>\<^verbatim>\<open>str.isalpha\<close>: every character is alphabetic and there is at least one.\<close>

definition isalpha :: "string \<Rightarrow> bool" where
  "isalpha s = (s \<noteq> [] \<and> list_all isalpha_char s)"

text \<open>\<^verbatim>\<open>str.isspace\<close> on one character, which is what \<^verbatim>\<open>str.strip()\<close> removes.\<close>

definition isspace_char :: "char \<Rightarrow> bool" where
  "isspace_char c =
     (let n = code_point c in
        (9 \<le> n \<and> n \<le> 13) \<or> (28 \<le> n \<and> n \<le> 32) \<or> n = 133 \<or> n = 160)"

definition strip :: "string \<Rightarrow> string" where
  "strip s = rev (dropWhile isspace_char (rev (dropWhile isspace_char s)))"

subsection \<open>The regular expressions of the sources\<close>

text \<open>
  The patterns of the repository are sequences of anchors, single characters or character
  classes, each optionally under \<^verbatim>\<open>*\<close> or \<^verbatim>\<open>+\<close>, and capture groups that are not nested.
  \<open>re_run\<close> is the backtracking matcher of Python's \<^verbatim>\<open>re\<close> on that fragment: the
  quantifiers are greedy and give characters back one at a time, so the groups returned
  are those of the first match in Python's order.
\<close>

datatype chr_class =
    Lit char        \<comment> \<open>a literal character\<close>
  | NonCapital      \<comment> \<open>\<^verbatim>\<open>[^A-Z]\<close>\<close>
  | Digit           \<comment> \<open>\<^verbatim>\<open>[0-9]\<close>\<close>
  | DigitOrDot      \<comment> \<open>\<^verbatim>\<open>[0-9.]\<close>\<close>
  | AnyChar         \<comment> \<open>\<^verbatim>\<open>.\<close>, any character but the newline\<close>

fun in_class :: "chr_class \<Rightarrow> char \<Rightarrow> bool" where
  "in_class (Lit a) c = (c = a)"
| "in_class NonCapital c = (\<not> is_capital c)"
| "in_class Digit c = is_digit c"
| "in_class DigitOrDot c = (is_digit c \<or> c = CHR ''.'')"
| "in_class AnyChar c = (c \<noteq> CHR 0x0A)"

datatype re_item =
    Bol                \<comment> \<open>\<^verbatim>\<open>^\<close>\<close>
  | Eol                \<comment> \<open>\<^verbatim>\<open>$\<close>: the end, or just before a newline that ends the string\<close>
  | One chr_class
  | Star chr_class
  | Plus chr_class
  | GroupOpen
  | GroupClose

fun re_weight :: "re_item \<Rightarrow> nat" where
  "re_weight (Plus k) = 3"
| "re_weight _ = 1"

text \<open>
  \<open>re_run items at0 s groups cur\<close>: \<open>at0\<close> says that no character has been consumed,
  \<open>s\<close> is the rest of the subject, \<open>groups\<close> the closed groups (last first) and \<open>cur\<close>
  the text consumed since the last parenthesis.
\<close>

function (sequential) re_run ::
  "re_item list \<Rightarrow> bool \<Rightarrow> string \<Rightarrow> string list \<Rightarrow> string \<Rightarrow> string list option" where
  "re_run [] at0 s groups cur = Some (rev groups)"
| "re_run (Bol # r) at0 s groups cur = (if at0 then re_run r at0 s groups cur else None)"
| "re_run (Eol # r) at0 s groups cur =
     (if s = [] \<or> s = [CHR 0x0A] then re_run r at0 s groups cur else None)"
| "re_run (GroupOpen # r) at0 s groups cur = re_run r at0 s groups []"
| "re_run (GroupClose # r) at0 s groups cur = re_run r at0 s (cur # groups) []"
| "re_run (One k # r) at0 [] groups cur = None"
| "re_run (One k # r) at0 (c # s) groups cur =
     (if in_class k c then re_run r False s groups (cur @ [c]) else None)"
| "re_run (Plus k # r) at0 s groups cur = re_run (One k # Star k # r) at0 s groups cur"
| "re_run (Star k # r) at0 [] groups cur = re_run r at0 [] groups cur"
| "re_run (Star k # r) at0 (c # s) groups cur =
     (if in_class k c
      then (case re_run (Star k # r) False s groups (cur @ [c]) of
              Some g \<Rightarrow> Some g
            | None \<Rightarrow> re_run r at0 (c # s) groups cur)
      else re_run r at0 (c # s) groups cur)"
  by pat_completeness auto
termination
  by (relation "measures [\<lambda>(r, at0, s, groups, cur). length s,
                          \<lambda>(r, at0, s, groups, cur). sum_list (map re_weight r)]") auto

text \<open>\<^verbatim>\<open>re.match(pattern, s)\<close>: the groups of the match at the start of \<open>s\<close>, if any.\<close>

definition re_match :: "re_item list \<Rightarrow> string \<Rightarrow> string list option" where
  "re_match pattern s = re_run pattern True s [] []"

section \<open>abbreviations.py\<close>

record Abbreviation =
  string :: string
  regex :: "re_item list"

text \<open>\<^verbatim>\<open>sep.join(parts)\<close> on the pieces of a pattern.\<close>

fun join :: "re_item \<Rightarrow> re_item list \<Rightarrow> re_item list" where
  "join sep [] = []"
| "join sep [x] = [x]"
| "join sep (x # y # ys) = x # sep # join sep (y # ys)"

definition NON_CAPITALS :: re_item where
  "NON_CAPITALS = Star NonCapital"

text \<open>
  The characters of \<^verbatim>\<open>f"^{string}$"\<close> as pattern pieces. The string is alphabetic where
  this is used, so each of its characters is a literal of the pattern.
\<close>

definition pattern_chars :: "string \<Rightarrow> re_item list" where
  "pattern_chars s = Bol # map (\<lambda>c. One (Lit c)) s @ [Eol]"

definition Abbreviation_init :: "string \<Rightarrow> error + Abbreviation" where
  "Abbreviation_init s =
     (if s = [] then Inl (ValueError EmptyAbbreviation)
      else if \<not> isalpha s then Inl (ValueError NonAlphabeticAbbreviation)
      else Inr \<lparr>string = s, regex = join NON_CAPITALS (pattern_chars s)\<rparr>)"

definition abbreviates :: "Abbreviation \<Rightarrow> string \<Rightarrow> bool" where
  "abbreviates a long_string = (re_match (regex a) long_string \<noteq> None)"


record AbbreviationResolver =
  string_collection :: "string list"          \<comment> \<open>a Python set: no duplicates\<close>
  lookup_table :: "(string \<times> string) list"    \<comment> \<open>a Python dict\<close>

definition AbbreviationResolver_init :: "string list \<Rightarrow> AbbreviationResolver" where
  "AbbreviationResolver_init collection =
     \<lparr>string_collection = remdups collection, lookup_table = []\<rparr>"

text \<open>\<^verbatim>\<open>_resolve_abbreviation\<close>; \<^verbatim>\<open>pop()\<close> on a set of one element returns that element.\<close>

definition resolve_abbreviation :: "AbbreviationResolver \<Rightarrow> Abbreviation \<Rightarrow> error + string" where
  "resolve_abbreviation r abbrev =
     (let possible_matches = filter (abbreviates abbrev) (string_collection r) in
      if length possible_matches > 1
      then Inl (ValueError (TooManyMatches (string abbrev) possible_matches))
      else if length possible_matches = 0
      then Inl (ValueError (NoMatches (string abbrev)))
      else Inr (hd possible_matches))"

text \<open>
  \<^verbatim>\<open>__call__\<close>. The result is paired with the resolver after the call: no statement of
  the method (or of the methods it calls) assigns to \<^verbatim>\<open>lookup_table\<close>.
\<close>

definition resolver_call ::
  "AbbreviationResolver \<Rightarrow> string \<Rightarrow> (error + string) \<times> AbbreviationResolver" where
  "resolver_call r abbrev_str =
     (case map_of (lookup_table r) abbrev_str of
        Some full \<Rightarrow> (Inr full, r)
      | None \<Rightarrow>
          (case Abbreviation_init abbrev_str of
             Inl e \<Rightarrow> (Inl e, r)
           | Inr abbrev \<Rightarrow> (resolve_abbreviation r abbrev, r)))"

subsection \<open>The matching rule, stated on the strings\<close>

text \<open>
  \<open>weave runs S\<close> is the string made of the first run, the first character of \<open>S\<close>, the
  second run, the second character, and so on, ending with the last run.
\<close>

fun weave :: "string list \<Rightarrow> string \<Rightarrow> string" where
  "weave [] S = []"
| "weave (r # rs) [] = r"
| "weave (r # rs) (c # S) = r @ c # weave rs S"

definition decomposes :: "string \<Rightarrow> string \<Rightarrow> bool" where
  "decomposes S L = (\<exists>runs. length runs = Suc (length S) \<and>
      (\<forall>r \<in> set runs. \<forall>c \<in> set r. \<not> is_capital c) \<and> L = weave runs S)"

text \<open>The pattern after its \<^verbatim>\<open>^\<close>.\<close>

fun tail_pattern :: "string \<Rightarrow> re_item list" where
  "tail_pattern [] = [Star NonCapital, Eol]"
| "tail_pattern (c # S) = Star NonCapital # One (Lit c) # tail_pattern S"

text \<open>The matcher on that pattern, as a recursion on the two strings.\<close>

fun skips :: "string \<Rightarrow> string \<Rightarrow> bool" where
  "skips [] L = (\<forall>c \<in> set L. \<not> is_capital c)"
| "skips (s # S) [] = False"
| "skips (s # S) (c # L) = ((\<not> is_capital c \<and> skips (s # S) L) \<or> (c = s \<and> skips S L))"

section \<open>products.py\<close>

record Product =
  name :: string

definition Product_init :: "string \<Rightarrow> error + Product" where
  "Product_init n =
     (if strip n = [] then Inl (ValueError ProductNameEmpty) else Inr \<lparr>name = strip n\<rparr>)"

text \<open>
  \<^verbatim>\<open>ProductQuantity[T]\<close>. The constructor accepts a \<^verbatim>\<open>Product\<close> (the record itself) or a
  string, which it turns into a \<^verbatim>\<open>Product\<close> first (\<open>ProductQuantity_of_str\<close>).
\<close>

record 'q ProductQuantity =
  quantity :: 'q
  product :: Product

definition ProductQuantity_of_str :: "'q \<Rightarrow> string \<Rightarrow> error + 'q ProductQuantity" where
  "ProductQuantity_of_str q n =
     (case Product_init n of
        Inl e \<Rightarrow> Inl e
      | Inr p \<Rightarrow> Inr \<lparr>quantity = q, product = p\<rparr>)"

text \<open>The property \<^verbatim>\<open>ProductQuantity.name\<close>.\<close>

definition pq_name :: "'q ProductQuantity \<Rightarrow> string" where
  "pq_name pq = Product.name (product pq)"

section \<open>facilities.py\<close>

record FacilityCategory =
  name :: string

definition FacilityCategory_init :: "string \<Rightarrow> error + FacilityCategory" where
  "FacilityCategory_init n =
     (if strip n = [] then Inl (ValueError CategoryNameEmpty) else Inr \<lparr>name = strip n\<rparr>)"

record Facility =
  category :: FacilityCategory
  adjective :: string
  speed :: rat

section \<open>rates.py\<close>

text \<open>\<^verbatim>\<open>Fraction\<close> is \<open>rat\<close>; a division by zero raises \<^verbatim>\<open>ZeroDivisionError\<close>.\<close>

record Time =
  seconds :: rat

record Rate =
  per_second :: rat

definition fraction_div :: "rat \<Rightarrow> rat \<Rightarrow> error + rat" where
  "fraction_div a b = (if b = 0 then Inl ZeroDivisionError else Inr (a / b))"

text \<open>\<^verbatim>\<open>Rate(t)\<close> for a \<^verbatim>\<open>Time\<close> \<open>t\<close>: \<^verbatim>\<open>Fraction(1, 1) / t.seconds\<close>.\<close>

definition Rate_of_Time :: "Time \<Rightarrow> error + Rate" where
  "Rate_of_Time t =
     (case fraction_div 1 (seconds t) of Inl e \<Rightarrow> Inl e | Inr r \<Rightarrow> Inr \<lparr>per_second = r\<rparr>)"

text \<open>\<^verbatim>\<open>Time.__truediv__\<close> by a number: \<^verbatim>\<open>Time(self.seconds / other)\<close>.\<close>

definition Time_div_number :: "Time \<Rightarrow> rat \<Rightarrow> error + Time" where
  "Time_div_number t k =
     (case fraction_div (seconds t) k of Inl e \<Rightarrow> Inl e | Inr r \<Rightarrow> Inr \<lparr>seconds = r\<rparr>)"

text \<open>
  \<^verbatim>\<open>Time.__rtruediv__\<close>, which evaluates \<^verbatim>\<open>k / t\<close> for a number \<open>k\<close> and a \<^verbatim>\<open>Time\<close> \<open>t\<close>
  as \<^verbatim>\<open>Rate(self / other)\<close>: first \<open>t / k\<close>, then the \<^verbatim>\<open>Rate\<close> of that \<^verbatim>\<open>Time\<close>.
\<close>

definition Time_rtruediv :: "Time \<Rightarrow> rat \<Rightarrow> error + Rate" where
  "Time_rtruediv t k =
     (case Time_div_number t k of Inl e \<Rightarrow> Inl e | Inr t' \<Rightarrow> Rate_of_Time t')"

definition Rate_zero :: Rate where
  "Rate_zero = \<lparr>per_second = 0\<rparr>"

definition Rate_neg :: "Rate \<Rightarrow> Rate" where
  "Rate_neg a = \<lparr>per_second = - per_second a\<rparr>"

definition Rate_add :: "Rate \<Rightarrow> Rate \<Rightarrow> Rate" where
  "Rate_add a b = \<lparr>per_second = per_second a + per_second b\<rparr>"

definition Rate_sub :: "Rate \<Rightarrow> Rate \<Rightarrow> Rate" where
  "Rate_sub a b = \<lparr>per_second = per_second a - per_second b\<rparr>"

text \<open>\<^verbatim>\<open>Rate.__mul__\<close> by a number.\<close>

definition Rate_mul_number :: "Rate \<Rightarrow> rat \<Rightarrow> Rate" where
  "Rate_mul_number a k = \<lparr>per_second = per_second a * k\<rparr>"

text \<open>\<^verbatim>\<open>Rate.__truediv__\<close> by a \<^verbatim>\<open>Rate\<close>: a plain \<^verbatim>\<open>Fraction\<close>.\<close>

definition Rate_div_Rate :: "Rate \<Rightarrow> Rate \<Rightarrow> error + rat" where
  "Rate_div_Rate a b = fraction_div (per_second a) (per_second b)"

text \<open>The comparisons that \<^verbatim>\<open>dataclass(order=True)\<close> generates compare \<^verbatim>\<open>per_second\<close>.\<close>

definition Rate_le :: "Rate \<Rightarrow> Rate \<Rightarrow> bool" where
  "Rate_le a b = (per_second a \<le> per_second b)"

definition Rate_lt :: "Rate \<Rightarrow> Rate \<Rightarrow> bool" where
  "Rate_lt a b = (per_second a < per_second b)"

section \<open>recipes.py\<close>

subsection \<open>The built-in \<^verbatim>\<open>hash\<close>\<close>

text \<open>
  CPython's hash of an \<^verbatim>\<open>int\<close>: the value reduced modulo \<open>2^61 - 1\<close>, with the sign of
  the value, and \<open>-2\<close> in place of \<open>-1\<close>.
\<close>

definition hash_int :: "int \<Rightarrow> int" where
  "hash_int n =
     (let m = (if n < 0 then - (\<bar>n\<bar> mod (2 ^ 61 - 1)) else n mod (2 ^ 61 - 1))
      in if m = - 1 then - 2 else m)"

text \<open>
  The hash of a string depends on the process (it is salted), and the hash of a tuple is
  a fixed function of the hashes of its elements: both are parameters, \<open>str_hash\<close> and
  \<open>tuple_hash\<close>. A frozen dataclass hashes the tuple of its fields.
\<close>

definition hash_Product :: "(string \<Rightarrow> int) \<Rightarrow> (int list \<Rightarrow> int) \<Rightarrow> Product \<Rightarrow> int" where
  "hash_Product str_hash tuple_hash p = tuple_hash [str_hash (Product.name p)]"

definition hash_ProductQuantity ::
  "(string \<Rightarrow> int) \<Rightarrow> (int list \<Rightarrow> int) \<Rightarrow> int ProductQuantity \<Rightarrow> int" where
  "hash_ProductQuantity str_hash tuple_hash pq =
     tuple_hash [hash_int (quantity pq), hash_Product str_hash tuple_hash (product pq)]"

text \<open>
  \<^verbatim>\<open>sorted(xs, key=f)\<close> is a stable sort: elements with equal keys keep their order.
  \<open>sort_key\<close> is the stable insertion sort.
\<close>

definition sorted_by_key :: "('a \<Rightarrow> int) \<Rightarrow> 'a list \<Rightarrow> 'a list" where
  "sorted_by_key f xs = sort_key f xs"

subsection \<open>\<^verbatim>\<open>Recipe\<close>\<close>

record Recipe =
  name :: string
  outputs :: "int ProductQuantity list"
  inputs :: "int ProductQuantity list"
  period :: Time
  made_in :: FacilityCategory

text \<open>
  \<^verbatim>\<open>Recipe.__init__\<close>. The local \<^verbatim>\<open>autoname\<close> is assigned only when there is exactly one
  output; reading it unassigned raises \<^verbatim>\<open>UnboundLocalError\<close>.
\<close>

definition Recipe_init ::
  "(string \<Rightarrow> int) \<Rightarrow> (int list \<Rightarrow> int) \<Rightarrow> string option \<Rightarrow> int ProductQuantity list \<Rightarrow>
     int ProductQuantity list \<Rightarrow> Time \<Rightarrow> FacilityCategory \<Rightarrow> error + Recipe" where
  "Recipe_init str_hash tuple_hash name_arg outs ins per cat =
     (let autoname = (if length outs = 1 then Some (pq_name (outs ! 0)) else None) in
      case (case name_arg of
              Some n \<Rightarrow> Inr n
            | None \<Rightarrow> (case autoname of
                         None \<Rightarrow> Inl (UnboundLocalError ''autoname'')
                       | Some n \<Rightarrow> Inr n)) of
        Inl e \<Rightarrow> Inl e
      | Inr n \<Rightarrow>
          (let cleaned_name = strip n in
           if cleaned_name = [] then Inl (ValueError RecipeNameEmpty)
           else if length outs < 1 then Inl (ValueError RecipeOutputsEmpty)
           else if length ins < 1 then Inl (ValueError RecipeInputsEmpty)
           else Inr \<lparr>name = cleaned_name,
                     outputs = sorted_by_key (hash_ProductQuantity str_hash tuple_hash) outs,
                     inputs = sorted_by_key (hash_ProductQuantity str_hash tuple_hash) ins,
                     period = per,
                     made_in = cat\<rparr>))"

section \<open>factories.py\<close>

subsection \<open>Results and dictionaries\<close>

text \<open>
  An operation that may not return has a result of type \<open>'a result\<close>: \<open>None\<close> when it
  does not return, \<open>Some (Inl e)\<close> when it raises \<open>e\<close>, \<open>Some (Inr v)\<close> when it returns \<open>v\<close>.
\<close>

type_synonym 'a result = "(error + 'a) option"

definition return :: "'a \<Rightarrow> 'a result" where
  "return v = Some (Inr v)"

definition raise :: "error \<Rightarrow> 'a result" where
  "raise e = Some (Inl e)"

definition then_do :: "'a result \<Rightarrow> ('a \<Rightarrow> 'b result) \<Rightarrow> 'b result" where
  "then_do m f = (case m of None \<Rightarrow> None | Some (Inl e) \<Rightarrow> Some (Inl e) | Some (Inr v) \<Rightarrow> f v)"

text \<open>
  A \<^verbatim>\<open>dict\<close> is the list of its items in insertion order. \<open>dict_set\<close> is \<^verbatim>\<open>d[k] = v\<close>,
  \<open>dict_get\<close> is \<^verbatim>\<open>d.get(k, default)\<close>, \<open>dict_lookup\<close> is \<^verbatim>\<open>d[k]\<close>, \<open>dict_has\<close> is \<^verbatim>\<open>k in d\<close>.
\<close>

fun dict_set :: "('k \<times> 'v) list \<Rightarrow> 'k \<Rightarrow> 'v \<Rightarrow> ('k \<times> 'v) list" where
  "dict_set [] k v = [(k, v)]"
| "dict_set ((k', v') # d) k v = (if k' = k then (k, v) # d else (k', v') # dict_set d k v)"

definition dict_get :: "('k \<times> 'v) list \<Rightarrow> 'k \<Rightarrow> 'v \<Rightarrow> 'v" where
  "dict_get d k dflt = (case map_of d k of None \<Rightarrow> dflt | Some v \<Rightarrow> v)"

definition dict_lookup :: "('k \<times> 'v) list \<Rightarrow> 'k \<Rightarrow> error + 'v" where
  "dict_lookup d k = (case map_of d k of None \<Rightarrow> Inl KeyError | Some v \<Rightarrow> Inr v)"

definition dict_has :: "('k \<times> 'v) list \<Rightarrow> 'k \<Rightarrow> bool" where
  "dict_has d k = (map_of d k \<noteq> None)"

type_synonym rate_dict = "(Product \<times> Rate) list"

subsection \<open>\<^verbatim>\<open>RecipeCrafter\<close>\<close>

record RecipeCrafter =
  recipe :: Recipe
  facility :: Facility
  how_many :: rat
  rc_rates :: rate_dict      \<comment> \<open>the attribute \<^verbatim>\<open>_rates\<close>\<close>

definition RecipeCrafter_init :: "Recipe \<Rightarrow> Facility \<Rightarrow> rat \<Rightarrow> error + RecipeCrafter" where
  "RecipeCrafter_init r f n =
     (if n \<le> 0 then Inl (ValueError HowManyNotPositive)
      else Inr \<lparr>recipe = r, facility = f, how_many = n, rc_rates = []\<rparr>)"

text \<open>
  One of the two loops of \<^verbatim>\<open>RecipeCrafter._compute_rates\<close>; \<open>combine\<close> is \<open>Rate_add\<close> in the
  loop over the outputs and \<open>Rate_sub\<close> in the loop over the inputs. The quotient
  \<^verbatim>\<open>quantity / period\<close> of an \<^verbatim>\<open>int\<close> by a \<^verbatim>\<open>Time\<close> is \<^verbatim>\<open>Time.__rtruediv__\<close>.
\<close>

fun rates_loop ::
  "(Rate \<Rightarrow> Rate \<Rightarrow> Rate) \<Rightarrow> Time \<Rightarrow> rat \<Rightarrow> rat \<Rightarrow> int ProductQuantity list \<Rightarrow> rate_dict \<Rightarrow>
     error + rate_dict" where
  "rates_loop combine per spd many [] d = Inr d"
| "rates_loop combine per spd many (x # xs) d =
     (case Time_rtruediv per (of_int (quantity x)) of
        Inl e \<Rightarrow> Inl e
      | Inr recipe_rate \<Rightarrow>
          (let total_rate = Rate_mul_number (Rate_mul_number recipe_rate spd) many in
           rates_loop combine per spd many xs
             (dict_set d (product x) (combine (dict_get d (product x) Rate_zero) total_rate))))"

text \<open>\<^verbatim>\<open>RecipeCrafter._compute_rates\<close>: the new map and the crafter that holds it.\<close>

definition compute_rates :: "RecipeCrafter \<Rightarrow> error + rate_dict \<times> RecipeCrafter" where
  "compute_rates c =
     (case rates_loop Rate_add (period (recipe c)) (speed (facility c)) (how_many c)
             (outputs (recipe c)) [] of
        Inl e \<Rightarrow> Inl e
      | Inr d1 \<Rightarrow>
          (case rates_loop Rate_sub (period (recipe c)) (speed (facility c)) (how_many c)
                  (inputs (recipe c)) d1 of
             Inl e \<Rightarrow> Inl e
           | Inr d2 \<Rightarrow> Inr (d2, c\<lparr>rc_rates := d2\<rparr>)))"

text \<open>
  The property \<^verbatim>\<open>RecipeCrafter.rates\<close>. Its last statement is \<^verbatim>\<open>return self.rates\<close>: the
  property reads itself.
\<close>

partial_function (option) RecipeCrafter_rates ::
  "RecipeCrafter \<Rightarrow> (error + rate_dict \<times> RecipeCrafter) option" where
  "RecipeCrafter_rates c =
     (if length (rc_rates c) = 0
      then (case compute_rates c of
              Inl e \<Rightarrow> Some (Inl e)
            | Inr v \<Rightarrow> RecipeCrafter_rates (snd v))
      else RecipeCrafter_rates c)"

text \<open>
  \<^verbatim>\<open>RecipeCrafter.with_goal\<close>. Each \<^verbatim>\<open>rc.rates\<close> of the source is one read of the property,
  in the order of evaluation.
\<close>

definition with_goal :: "Recipe \<Rightarrow> Facility \<Rightarrow> Rate ProductQuantity \<Rightarrow> RecipeCrafter result" where
  "with_goal r f goal_pq =
     (let p = product goal_pq; rate = quantity goal_pq in
      then_do (Some (RecipeCrafter_init r f 1)) (\<lambda>rc.
      then_do (RecipeCrafter_rates rc) (\<lambda>(d1, rc1).
      then_do (if \<not> dict_has d1 p then return (True, rc1)
               else then_do (RecipeCrafter_rates rc1) (\<lambda>(d2, rc2).
                    then_do (Some (dict_lookup d2 p)) (\<lambda>v.
                    return (Rate_le v Rate_zero, rc2)))) (\<lambda>(fails, rc3).
      if fails then raise (ValueError RecipeDoesNotProduceGoal)
      else then_do (RecipeCrafter_rates rc3) (\<lambda>(d4, rc4).
           then_do (Some (dict_lookup d4 p)) (\<lambda>v.
           then_do (Some (Rate_div_Rate rate v)) (\<lambda>rate_ratio.
           then_do (Some (compute_rates (rc4\<lparr>how_many := how_many rc4 * rate_ratio\<rparr>)))
             (\<lambda>(d5, rc5). return rc5))))))))"

subsection \<open>\<^verbatim>\<open>Factory\<close>\<close>

text \<open>
  A \<^verbatim>\<open>RecipeCrafter\<close> is a mutable object compared by identity: the factory holds
  references, and the heap maps each reference to the crafter's current state.
\<close>

type_synonym ref = nat
type_synonym heap = "ref \<Rightarrow> RecipeCrafter"

record Factory =
  goal :: "Rate ProductQuantity"
  crafters :: "ref list"
  f_rates :: rate_dict                       \<comment> \<open>the attribute \<^verbatim>\<open>_rates\<close>\<close>
  ignored_rates :: "(Product \<times> bool) list"

definition Factory_init :: "Rate ProductQuantity \<Rightarrow> Factory" where
  "Factory_init g = \<lparr>goal = g, crafters = [], f_rates = [], ignored_rates = []\<rparr>"

text \<open>Reading \<^verbatim>\<open>rc.rates\<close> through a reference.\<close>

definition read_rates :: "heap \<Rightarrow> ref \<Rightarrow> (rate_dict \<times> heap) result" where
  "read_rates h a = then_do (RecipeCrafter_rates (h a)) (\<lambda>(d, c). return (d, h(a := c)))"

text \<open>The inner loop of \<^verbatim>\<open>Factory._compute_rates\<close>, over the items of one crafter's map.\<close>

fun merge_rates :: "rate_dict \<Rightarrow> rate_dict \<Rightarrow> rate_dict" where
  "merge_rates acc [] = acc"
| "merge_rates acc ((p, r) # items) =
     merge_rates (dict_set acc p (Rate_add (dict_get acc p Rate_zero) r)) items"

text \<open>The outer loop, over the crafters.\<close>

fun crafters_loop :: "heap \<Rightarrow> ref list \<Rightarrow> rate_dict \<Rightarrow> (rate_dict \<times> heap) result" where
  "crafters_loop h [] acc = return (acc, h)"
| "crafters_loop h (a # as) acc =
     then_do (read_rates h a) (\<lambda>(d, h'). crafters_loop h' as (merge_rates acc d))"

definition Factory_compute_rates :: "heap \<Rightarrow> Factory \<Rightarrow> (rate_dict \<times> heap \<times> Factory) result" where
  "Factory_compute_rates h f =
     then_do (crafters_loop h (crafters f)
                (dict_set [] (product (goal f)) (Rate_neg (quantity (goal f)))))
       (\<lambda>(d, h'). return (d, h', f\<lparr>f_rates := d\<rparr>))"

text \<open>The property \<^verbatim>\<open>Factory.rates\<close>, which returns the attribute \<^verbatim>\<open>_rates\<close>.\<close>

definition Factory_rates :: "heap \<Rightarrow> Factory \<Rightarrow> (rate_dict \<times> heap \<times> Factory) result" where
  "Factory_rates h f =
     (if length (f_rates f) = 0 then Factory_compute_rates h f
      else return (f_rates f, h, f))"




text \<open>The loop of \<^verbatim>\<open>find_crafters\<close>; \<^verbatim>\<open>and\<close> reads \<^verbatim>\<open>crafter.rates\<close> a second time.\<close>

fun find_loop :: "heap \<Rightarrow> ref list \<Rightarrow> Product \<Rightarrow> ref list \<Rightarrow> (ref list \<times> heap) result" where
  "find_loop h [] p found = return (found, h)"
| "find_loop h (a # as) p found =
     then_do (read_rates h a) (\<lambda>(d1, h1).
       if \<not> dict_has d1 p then find_loop h1 as p found
       else then_do (read_rates h1 a) (\<lambda>(d2, h2).
            then_do (Some (dict_lookup d2 p)) (\<lambda>v.
            find_loop h2 as p (if Rate_lt Rate_zero v then found @ [a] else found))))"

definition find_crafters :: "heap \<Rightarrow> Factory \<Rightarrow> Product \<Rightarrow> (ref list \<times> heap) result" where
  "find_crafters h f p = find_loop h (crafters f) p []"

definition set_ignored :: "heap \<Rightarrow> Factory \<Rightarrow> Product \<Rightarrow> (heap \<times> Factory) result" where
  "set_ignored h f p =
     then_do (Factory_rates h f) (\<lambda>(d, h', f').
       if \<not> dict_has d p then raise (ValueError ProductMustExistToSet)
       else return (h', f'\<lparr>ignored_rates := dict_set (ignored_rates f') p True\<rparr>))"

definition connect_crafter :: "heap \<Rightarrow> Factory \<Rightarrow> ref \<Rightarrow> (heap \<times> Factory) result" where
  "connect_crafter h f rc =
     (if rc \<in> set (crafters f) then raise (ValueError CrafterAlreadyConnected)
      else then_do (Factory_compute_rates h (f\<lparr>crafters := crafters f @ [rc]\<rparr>))
             (\<lambda>(d, h', f'). return (h', f')))"

text \<open>\<^verbatim>\<open>Factory.upgrade_crafter\<close>, with one read of the property for each \<^verbatim>\<open>rc.rates\<close>.\<close>

definition upgrade_crafter ::
  "heap \<Rightarrow> Factory \<Rightarrow> ref \<Rightarrow> Rate ProductQuantity \<Rightarrow> (heap \<times> Factory) result" where
  "upgrade_crafter h f rc production_increase =
     (let target = product production_increase; delta_rate = quantity production_increase in
      if rc \<notin> set (crafters f) then raise (ValueError CrafterNotConnected)
      else
      then_do (read_rates h rc) (\<lambda>(d1, h1).
      then_do (if dict_has d1 target
               then then_do (read_rates h1 rc) (\<lambda>(d2, h2).
                    then_do (Some (dict_lookup d2 target)) (\<lambda>v.
                    if Rate_le v Rate_zero then raise (ValueError CrafterDoesNotProduceTarget)
                    else return h2))
               else return h1) (\<lambda>h3.
      then_do (read_rates h3 rc) (\<lambda>(d4, h4).
      then_do (Some (dict_lookup d4 target)) (\<lambda>v4.
      if Rate_le (Rate_add v4 delta_rate) Rate_zero
      then raise (ValueError UpgradedRateNotPositive)
      else
      then_do (read_rates h4 rc) (\<lambda>(d5, h5).
      then_do (Some (dict_lookup d5 target)) (\<lambda>v5.
      then_do (read_rates h5 rc) (\<lambda>(d6, h6).
      then_do (Some (dict_lookup d6 target)) (\<lambda>v6.
      then_do (Some (Rate_div_Rate (Rate_add v5 delta_rate) v6)) (\<lambda>upgrade_ratio.
      then_do (Some (compute_rates ((h6 rc)\<lparr>how_many := how_many (h6 rc) * upgrade_ratio\<rparr>)))
        (\<lambda>(d7, c7).
      then_do (Factory_compute_rates (h6(rc := c7)) f) (\<lambda>(d8, h8, f8).
      return (h8, f8)))))))))))))"

subsection \<open>The smelting example of the specification\<close>

definition iron_ore :: Product where
  "iron_ore = \<lparr>Product.name = ''Iron Ore''\<rparr>"

definition iron_ingot :: Product where
  "iron_ingot = \<lparr>Product.name = ''Iron Ingot''\<rparr>"

definition smelter :: FacilityCategory where
  "smelter = \<lparr>FacilityCategory.name = ''Smelter''\<rparr>"

definition arc_smelter :: Facility where
  "arc_smelter = \<lparr>category = smelter, adjective = ''Arc'', speed = 1\<rparr>"

text \<open>One Iron Ingot from one Iron Ore every second, made in a Smelter.\<close>

definition iron_recipe :: Recipe where
  "iron_recipe =
     \<lparr>Recipe.name = ''Iron Ingot'',
      outputs = [\<lparr>quantity = 1, product = iron_ingot\<rparr>],
      inputs = [\<lparr>quantity = 1, product = iron_ore\<rparr>],
      period = \<lparr>seconds = 1\<rparr>,
      made_in = smelter\<rparr>"

text \<open>A crafter of two Arc Smelters on that recipe, as the constructor leaves it.\<close>

definition iron_crafter :: RecipeCrafter where
  "iron_crafter = \<lparr>recipe = iron_recipe, facility = arc_smelter, how_many = 2, rc_rates = []\<rparr>"

text \<open>A factory whose goal is two Iron Ingots per second.\<close>

definition iron_goal :: "Rate ProductQuantity" where
  "iron_goal = \<lparr>quantity = \<lparr>per_second = 2\<rparr>, product = iron_ingot\<rparr>"

text \<open>
  The same recipe with an output quantity of zero, which the ingredient pattern of the
  recipe file accepts.
\<close>

definition zero_recipe :: Recipe where
  "zero_recipe = iron_recipe\<lparr>outputs := [\<lparr>quantity = 0, product = iron_ingot\<rparr>]\<rparr>"

definition zero_crafter :: RecipeCrafter where
  "zero_crafter = \<lparr>recipe = zero_recipe, facility = arc_smelter, how_many = 1, rc_rates = []\<rparr>"

text \<open>
  A heap in which every reference holds that crafter, and a factory that holds reference
  \<open>0\<close>, with its rate map filled and Iron Ore marked ignored.
\<close>

definition iron_heap :: heap where
  "iron_heap = (\<lambda>a. iron_crafter)"

definition iron_factory :: Factory where
  "iron_factory =
     \<lparr>goal = iron_goal, crafters = [0],
      f_rates = [(iron_ingot, \<lparr>per_second = - 2\<rparr>), (iron_ore, \<lparr>per_second = - 2\<rparr>)],
      ignored_rates = [(iron_ore, True)]\<rparr>"


section \<open>rational_utilities.py\<close>

text \<open>\<^verbatim>\<open>int(s)\<close> on a string of the digits \<^verbatim>\<open>0\<close> to \<^verbatim>\<open>9\<close>.\<close>

definition digit_value :: "char \<Rightarrow> int" where
  "digit_value c = int (code_point c) - 48"

definition int_of_digits :: "string \<Rightarrow> int" where
  "int_of_digits s = foldl (\<lambda>n c. 10 * n + digit_value c) 0 s"

text \<open>
  \<^verbatim>\<open>read_rational\<close>, that is \<^verbatim>\<open>Fraction(string)\<close> with \<^verbatim>\<open>ValueError\<close> for a string that
  \<^verbatim>\<open>Fraction\<close> rejects, on the strings the arrow pattern passes to it: digits and dots.
  \<^verbatim>\<open>Fraction\<close> accepts digits, digits with one dot anywhere after the first digit, and a
  dot followed by digits.
\<close>

definition read_rational :: "string \<Rightarrow> error + rat" where
  "read_rational s =
     (let whole = takeWhile is_digit s; rest = dropWhile is_digit s in
      case rest of
        [] \<Rightarrow> if whole = [] then Inl (ValueError (NotARational s))
              else Inr (of_int (int_of_digits whole))
      | c # decimals \<Rightarrow>
          if c = CHR ''.'' \<and> list_all is_digit decimals \<and> whole @ decimals \<noteq> []
          then Inr (of_int (int_of_digits (whole @ decimals)) / 10 ^ length decimals)
          else Inl (ValueError (NotARational s)))"

section \<open>recipe_readers.py\<close>

text \<open>\<^verbatim>\<open>^\#.*$\<close>\<close>

definition COMMENT_LINE_REGEX :: "re_item list" where
  "COMMENT_LINE_REGEX = [Bol, One (Lit (CHR ''#'')), Star AnyChar, Eol]"

text \<open>\<^verbatim>\<open>^\^ *([0-9.]+) *s *\((.+)\)$\<close>\<close>

definition ARROW_LINE_REGEX :: "re_item list" where
  "ARROW_LINE_REGEX =
     [Bol, One (Lit (CHR ''^'')), Star (Lit (CHR '' '')),
      GroupOpen, Plus DigitOrDot, GroupClose,
      Star (Lit (CHR '' '')), One (Lit (CHR ''s'')), Star (Lit (CHR '' '')),
      One (Lit (CHR ''('')), GroupOpen, Plus AnyChar, GroupClose, One (Lit (CHR '')'')), Eol]"

text \<open>\<^verbatim>\<open>^<> *(.+)$\<close>\<close>

definition NAMETAG_LINE_REGEX :: "re_item list" where
  "NAMETAG_LINE_REGEX =
     [Bol, One (Lit (CHR ''<'')), One (Lit (CHR ''>'')), Star (Lit (CHR '' '')),
      GroupOpen, Plus AnyChar, GroupClose, Eol]"

text \<open>\<^verbatim>\<open>^([0-9]+) +(.+)$\<close>\<close>

definition INGREDIENT_LINE_REGEX :: "re_item list" where
  "INGREDIENT_LINE_REGEX =
     [Bol, GroupOpen, Plus Digit, GroupClose, Plus (Lit (CHR '' '')),
      GroupOpen, Plus AnyChar, GroupClose, Eol]"

subsection \<open>The whole file\<close>

text \<open>
  The loop of \<^verbatim>\<open>_split_on_blank_lines\<close>: \<open>i\<close> is the index of the line at the head of the
  lines still to visit, \<open>start\<close> is \<^verbatim>\<open>current_block_start\<close>. A slice \<^verbatim>\<open>xs[a:b]\<close> is
  \<open>take (b - a) (drop a xs)\<close>.
\<close>

fun split_loop ::
  "string list \<Rightarrow> nat \<Rightarrow> string list \<Rightarrow> string list list \<Rightarrow> nat option \<Rightarrow>
     string list list \<times> nat option" where
  "split_loop list_of_lines i [] blocks start = (blocks, start)"
| "split_loop list_of_lines i (line # rest) blocks start =
     (if line = []
      then (case start of
              Some s \<Rightarrow> split_loop list_of_lines (i + 1) rest
                          (blocks @ [take (i - s) (drop s list_of_lines)]) None
            | None \<Rightarrow> split_loop list_of_lines (i + 1) rest blocks None)
      else if start = None then split_loop list_of_lines (i + 1) rest blocks (Some i)
      else split_loop list_of_lines (i + 1) rest blocks start)"

definition split_on_blank_lines :: "string list \<Rightarrow> string list list" where
  "split_on_blank_lines list_of_lines =
     (case split_loop list_of_lines 0 list_of_lines [] None of
        (blocks, Some s) \<Rightarrow> blocks @ [drop s list_of_lines]
      | (blocks, None) \<Rightarrow> blocks)"

text \<open>The two fields of the \<^verbatim>\<open>DataBase\<close> that \<^verbatim>\<open>read_recipe_file\<close> reads.\<close>

record DataBase =
  facility_categories :: "FacilityCategory list"
  products :: "Product list"

text \<open>
  The substitution loop of \<^verbatim>\<open>read_recipe_file\<close>: \<open>done\<close> holds the lines already
  visited, as the loop leaves them. In the branch of an ingredient line the argument of
  the resolver is the name \<^verbatim>\<open>productname\<close>, which is bound nowhere (the local is
  \<^verbatim>\<open>product_name\<close>): evaluating it raises \<^verbatim>\<open>NameError\<close>, and the assignment to
  \<^verbatim>\<open>file_lines[i]\<close> after it is never reached.
\<close>

fun substitute_loop ::
  "string list \<Rightarrow> string list \<Rightarrow> AbbreviationResolver \<Rightarrow> AbbreviationResolver \<Rightarrow>
     string list \<Rightarrow> string list \<Rightarrow> error + string list" where
  "substitute_loop all_products all_categories product_resolver category_resolver [] done =
     Inr done"
| "substitute_loop all_products all_categories product_resolver category_resolver
     (line # rest) done =
     (case re_match INGREDIENT_LINE_REGEX line of
        Some m \<Rightarrow>
          (let number_string = m ! 0; product_name = m ! 1 in
           if product_name \<notin> set all_products then Inl (NameError ''productname'')
           else substitute_loop all_products all_categories product_resolver
                  category_resolver rest (done @ [line]))
      | None \<Rightarrow>
          (case re_match ARROW_LINE_REGEX line of
             Some m \<Rightarrow>
               (let seconds_string = m ! 0; category_name = m ! 1 in
                if category_name \<notin> set all_categories
                then (case resolver_call category_resolver category_name of
                        (Inl e, r) \<Rightarrow> Inl e
                      | (Inr full_category_name, r) \<Rightarrow>
                          substitute_loop all_products all_categories product_resolver r rest
                            (done @ [''^ '' @ seconds_string @ '' s ('' @
                                     full_category_name @ '')'']))
                else substitute_loop all_products all_categories product_resolver
                       category_resolver rest (done @ [line]))
           | None \<Rightarrow>
               substitute_loop all_products all_categories product_resolver
                 category_resolver rest (done @ [line])))"

text \<open>
  \<^verbatim>\<open>read_recipe_file\<close>, from the lines that \<^verbatim>\<open>f.readlines()\<close> returns to the blocks.
\<close>

definition read_recipe_file :: "string list \<Rightarrow> DataBase \<Rightarrow> error + string list list" where
  "read_recipe_file lines db =
     (let file_lines = filter (\<lambda>line. re_match COMMENT_LINE_REGEX line = None)
                          (map strip lines);
          all_products = remdups (map Product.name (products db));
          product_resolver = AbbreviationResolver_init all_products;
          all_categories = remdups (map FacilityCategory.name (facility_categories db));
          category_resolver = AbbreviationResolver_init all_categories
      in case substitute_loop all_products all_categories product_resolver
                category_resolver file_lines [] of
           Inl e \<Rightarrow> Inl e
         | Inr file_lines' \<Rightarrow> Inr (split_on_blank_lines file_lines'))"

subsection \<open>One recipe\<close>

text \<open>
  The index \<open>i\<close> starts at \<open>0\<close> and only grows, so it is a natural number and the tests
  \<^verbatim>\<open>i < 0\<close> of the source are never true.
\<close>

definition parse_ingredient :: "string list \<Rightarrow> nat \<Rightarrow> error + int ProductQuantity option" where
  "parse_ingredient recipe_block i =
     (if i \<ge> length recipe_block then Inr None
      else case re_match INGREDIENT_LINE_REGEX (recipe_block ! i) of
             None \<Rightarrow> Inr None
           | Some m \<Rightarrow>
               (let number_string = m ! 0; product_name = m ! 1 in
                case ProductQuantity_of_str (int_of_digits number_string) product_name of
                  Inl e \<Rightarrow> Inl e
                | Inr pq \<Rightarrow> Inr (Some pq)))"

definition parse_arrow_line :: "string list \<Rightarrow> nat \<Rightarrow> error + Time \<times> FacilityCategory" where
  "parse_arrow_line recipe_block i =
     (if i \<ge> length recipe_block then Inl (ValueError ArrowIndexOutOfBounds)
      else case re_match ARROW_LINE_REGEX (recipe_block ! i) of
             None \<Rightarrow> Inl (ValueError (UnparsableArrowLine (recipe_block ! i)))
           | Some m \<Rightarrow>
               (let seconds_string = m ! 0; category_name = m ! 1 in
                case read_rational seconds_string of
                  Inl e \<Rightarrow> Inl e
                | Inr q \<Rightarrow>
                    (case FacilityCategory_init category_name of
                       Inl e \<Rightarrow> Inl e
                     | Inr fc \<Rightarrow> Inr (\<lparr>seconds = q\<rparr>, fc))))"

definition parse_nametag_line :: "string list \<Rightarrow> nat \<Rightarrow> error + string option" where
  "parse_nametag_line recipe_block i =
     (if i \<ge> length recipe_block then Inr None
      else if int i = int (length recipe_block) - 1 then Inl (ValueError NametagBeforeEnd)
      else case re_match NAMETAG_LINE_REGEX (recipe_block ! i) of
             None \<Rightarrow> Inl (ValueError (UnparsableNametagLine (recipe_block ! i)))
           | Some m \<Rightarrow> Inr (Some (m ! 0)))"

text \<open>
  The two \<^verbatim>\<open>while\<close> loops of \<^verbatim>\<open>read_recipe\<close>: ingredients are collected from line \<open>i\<close> on,
  as long as the line is one; the result is the list and the index of the first line that
  is not.
\<close>

function ingredients_loop ::
  "string list \<Rightarrow> nat \<Rightarrow> int ProductQuantity list \<Rightarrow> error + int ProductQuantity list \<times> nat" where
  "ingredients_loop recipe_block i found =
     (case parse_ingredient recipe_block i of
        Inl e \<Rightarrow> Inl e
      | Inr None \<Rightarrow> Inr (found, i)
      | Inr (Some ingredient) \<Rightarrow> ingredients_loop recipe_block (i + 1) (found @ [ingredient]))"
  by pat_completeness auto
termination
  by (relation "measure (\<lambda>(recipe_block, i, found). length recipe_block - i)")
    (auto simp: parse_ingredient_def split: if_splits)

declare ingredients_loop.simps [simp del]

definition read_recipe ::
  "(string \<Rightarrow> int) \<Rightarrow> (int list \<Rightarrow> int) \<Rightarrow> string list \<Rightarrow> error + Recipe" where
  "read_recipe str_hash tuple_hash recipe_block =
     (case ingredients_loop recipe_block 0 [] of
        Inl e \<Rightarrow> Inl e
      | Inr (r_outputs, i) \<Rightarrow>
          (case parse_arrow_line recipe_block i of
             Inl e \<Rightarrow> Inl e
           | Inr (r_period, r_madein) \<Rightarrow>
               (case ingredients_loop recipe_block (i + 1) [] of
                  Inl e \<Rightarrow> Inl e
                | Inr (r_inputs, j) \<Rightarrow>
                    (case parse_nametag_line recipe_block j of
                       Inl e \<Rightarrow> Inl e
                     | Inr r_name \<Rightarrow>
                         Recipe_init str_hash tuple_hash r_name r_outputs r_inputs
                           r_period r_madein))))"

text \<open>The database of the smelting example.\<close>

definition iron_db :: DataBase where
  "iron_db = \<lparr>facility_categories = [smelter], products = [iron_ore, iron_ingot]\<rparr>"

section \<open>Abbreviations: proofs\<close>

lemma join_tail: "join NON_CAPITALS (One (Lit c) # map (\<lambda>c. One (Lit c)) S @ [Eol]) =
   One (Lit c) # tail_pattern S"
  by (induction S arbitrary: c) (simp_all add: NON_CAPITALS_def)

lemma join_pattern_chars: "join NON_CAPITALS (pattern_chars S) = Bol # tail_pattern S"
  by (cases S) (simp_all add: pattern_chars_def join_tail NON_CAPITALS_def [symmetric])

lemma run_final: "(re_run [Star NonCapital, Eol] at0 L g cur \<noteq> None) = (\<forall>c \<in> set L. \<not> is_capital c)"
proof (induction L arbitrary: at0 g cur)
  case Nil show ?case by simp
next
  case (Cons c L)
  have nl: "\<not> is_capital (CHR 0x0A)" by (simp add: is_capital_def code_point_def)
  show ?case using Cons[of False g "cur @ [c]"] nl
    by (auto split: option.splits)
qed

lemma run_tail: "(re_run (tail_pattern S) at0 L g cur \<noteq> None) = skips S L"
proof (induction S arbitrary: at0 L g cur)
  case Nil show ?case using run_final by simp
next
  case (Cons s S)
  note outer = Cons.IH
  show ?case
  proof (induction L arbitrary: at0 g cur)
    case Nil show ?case by simp
  next
    case step: (Cons c L)
    show ?case using step[of False g "cur @ [c]"] outer[of False L g "cur @ [c]"]
      by (auto split: option.splits)
  qed
qed

lemma decomposes_Nil: "decomposes [] L = (\<forall>c \<in> set L. \<not> is_capital c)"
proof
  assume "decomposes [] L"
  then obtain runs where r: "length runs = Suc 0"
    "\<forall>r \<in> set runs. \<forall>c \<in> set r. \<not> is_capital c" "L = weave runs []"
    by (auto simp: decomposes_def)
  from r(1) obtain y where "runs = [y]" by (auto simp: length_Suc_conv)
  with r show "\<forall>c \<in> set L. \<not> is_capital c" by simp
next
  assume a: "\<forall>c \<in> set L. \<not> is_capital c"
  have "length [L] = Suc (length ([]::string)) \<and>
        (\<forall>r \<in> set [L]. \<forall>c \<in> set r. \<not> is_capital c) \<and> L = weave [L] []"
    using a by simp
  then show "decomposes [] L" unfolding decomposes_def by blast
qed

lemma decomposes_Cons:
  "decomposes (s # S) L =
     (\<exists>r L'. (\<forall>c \<in> set r. \<not> is_capital c) \<and> L = r @ s # L' \<and> decomposes S L')"
proof
  assume "decomposes (s # S) L"
  then obtain runs where r: "length runs = Suc (Suc (length S))"
    "\<forall>r \<in> set runs. \<forall>c \<in> set r. \<not> is_capital c" "L = weave runs (s # S)"
    by (auto simp: decomposes_def)
  from r(1) obtain r0 rs where rs: "runs = r0 # rs" "length rs = Suc (length S)"
    by (auto simp: length_Suc_conv)
  have "decomposes S (weave rs S)"
    unfolding decomposes_def using rs r(2) by auto
  with r rs show "\<exists>r L'. (\<forall>c \<in> set r. \<not> is_capital c) \<and> L = r @ s # L' \<and> decomposes S L'"
    by auto
next
  assume "\<exists>r L'. (\<forall>c \<in> set r. \<not> is_capital c) \<and> L = r @ s # L' \<and> decomposes S L'"
  then obtain r L' where a: "\<forall>c \<in> set r. \<not> is_capital c" "L = r @ s # L'" "decomposes S L'"
    by blast
  from a(3) obtain runs where rs: "length runs = Suc (length S)"
    "\<forall>r \<in> set runs. \<forall>c \<in> set r. \<not> is_capital c" "L' = weave runs S"
    by (auto simp: decomposes_def)
  have "length (r # runs) = Suc (length (s # S)) \<and>
        (\<forall>x \<in> set (r # runs). \<forall>c \<in> set x. \<not> is_capital c) \<and> L = weave (r # runs) (s # S)"
    using a rs by simp
  then show "decomposes (s # S) L" unfolding decomposes_def by blast
qed

lemma skips_Cons:
  "skips (s # S) L =
     (\<exists>r L'. (\<forall>c \<in> set r. \<not> is_capital c) \<and> L = r @ s # L' \<and> skips S L')"
proof (induction L)
  case Nil
  show ?case by simp
next
  case (Cons c L)
  show ?case
  proof
    assume "skips (s # S) (c # L)"
    then consider "\<not> is_capital c" "skips (s # S) L" | "c = s" "skips S L" by auto
    then show "\<exists>r L'. (\<forall>c \<in> set r. \<not> is_capital c) \<and> c # L = r @ s # L' \<and> skips S L'"
    proof cases
      case 1
      with Cons obtain r L' where "\<forall>c \<in> set r. \<not> is_capital c" "L = r @ s # L'" "skips S L'"
        by blast
      with 1 have "(\<forall>x \<in> set (c # r). \<not> is_capital x) \<and> c # L = (c # r) @ s # L' \<and> skips S L'"
        by simp
      then show ?thesis by blast
    next
      case 2
      then have "(\<forall>x \<in> set ([]::string). \<not> is_capital x) \<and> c # L = [] @ s # L \<and> skips S L"
        by simp
      then show ?thesis by blast
    qed
  next
    assume "\<exists>r L'. (\<forall>c \<in> set r. \<not> is_capital c) \<and> c # L = r @ s # L' \<and> skips S L'"
    then obtain r L' where a: "\<forall>c \<in> set r. \<not> is_capital c" "c # L = r @ s # L'" "skips S L'"
      by blast
    show "skips (s # S) (c # L)"
    proof (cases r)
      case Nil
      with a show ?thesis by simp
    next
      case (Cons x r')
      with a have "\<not> is_capital c" "L = r' @ s # L'" "\<forall>c \<in> set r'. \<not> is_capital c" by auto
      with a(3) Cons.IH show ?thesis by auto
    qed
  qed
qed

lemma skips_decomposes: "skips S L = decomposes S L"
proof (induction S arbitrary: L)
  case Nil
  show ?case by (simp add: decomposes_Nil)
next
  case (Cons s S)
  show ?case unfolding skips_Cons decomposes_Cons using Cons by simp
qed

lemma abbreviates_iff:
  assumes "Abbreviation_init S = Inr a"
  shows "abbreviates a L = decomposes S L"
proof -
  from assms have "regex a = Bol # tail_pattern S"
    by (auto simp: Abbreviation_init_def join_pattern_chars split: if_splits)
  then have "abbreviates a L = (re_run (tail_pattern S) True L [] [] \<noteq> None)"
    by (simp add: abbreviates_def re_match_def)
  then show ?thesis by (simp only: run_tail skips_decomposes)
qed

lemma decomposes_capitals: "decomposes S L \<Longrightarrow> subseq (filter is_capital L) S"
proof (induction S arbitrary: L)
  case Nil
  then have "filter is_capital L = []" by (simp add: decomposes_Nil filter_empty_conv)
  then show ?case by simp
next
  case (Cons s S)
  from Cons.prems obtain r L' where a: "\<forall>c \<in> set r. \<not> is_capital c" "L = r @ s # L'" "decomposes S L'"
    unfolding decomposes_Cons by blast
  from a(1) have "filter is_capital r = []" by (simp add: filter_empty_conv)
  with a(2) have "filter is_capital L = filter is_capital (s # L')" by simp
  moreover have "subseq (filter is_capital L') S" using Cons.IH a(3) by blast
  ultimately show ?case by auto
qed

lemma Abbreviation_init_alpha:
  "isalpha S \<Longrightarrow> Abbreviation_init S = Inr \<lparr>string = S, regex = join NON_CAPITALS (pattern_chars S)\<rparr>"
  by (auto simp: Abbreviation_init_def isalpha_def)

lemma Abbreviation_init_invalid:
  "\<not> isalpha T \<Longrightarrow> Abbreviation_init T =
      Inl (ValueError (if T = [] then EmptyAbbreviation else NonAlphabeticAbbreviation))"
  by (auto simp: Abbreviation_init_def isalpha_def)

lemma isalpha_XRC: "isalpha ''XRC''"
  by (simp add: isalpha_def isalpha_char_def code_point_def)

lemma XRC_abbreviates:
  "abbreviates \<lparr>string = ''XRC'', regex = join NON_CAPITALS (pattern_chars ''XRC'')\<rparr> ''X-Ray Cracking''"
  by (simp add: abbreviates_def re_match_def pattern_chars_def NON_CAPITALS_def is_capital_def code_point_def)

text \<open>
  Claim C5. For every alphabetic (hence non-empty) shorthand \<open>S\<close>, building the
  abbreviation succeeds, and it abbreviates a string \<open>L\<close> exactly when \<open>L\<close> is a run of
  characters outside \<^verbatim>\<open>A-Z\<close>, the first character of \<open>S\<close>, another such run, the second
  character, and so on, down to the last character of \<open>S\<close> and a last run; so the capital
  letters of \<open>L\<close>, in order, are among the characters of \<open>S\<close>. \<^verbatim>\<open>XRC\<close> abbreviates
  \<^verbatim>\<open>X-Ray Cracking\<close>. Building an abbreviation from a string \<open>T\<close> that is empty or not
  alphabetic raises \<^verbatim>\<open>ValueError\<close> (the specification's \<^verbatim>\<open>InvalidAbbreviation\<close>).
\<close>

theorem abbreviation_matching_rule:
  assumes "isalpha S" and "\<not> isalpha T"
  shows "(\<exists>a. Abbreviation_init S = Inr a \<and> string a = S \<and>
            (\<forall>L. abbreviates a L = decomposes S L) \<and>
            (\<forall>L. abbreviates a L \<longrightarrow> subseq (filter is_capital L) S)) \<and>
         (\<exists>a. Abbreviation_init ''XRC'' = Inr a \<and> abbreviates a ''X-Ray Cracking'') \<and>
         Abbreviation_init T =
           Inl (ValueError (if T = [] then EmptyAbbreviation else NonAlphabeticAbbreviation))"
proof -
  let ?a = "\<lparr>string = S, regex = join NON_CAPITALS (pattern_chars S)\<rparr>"
  have i: "Abbreviation_init S = Inr ?a" using assms(1) by (rule Abbreviation_init_alpha)
  have m: "\<forall>L. abbreviates ?a L = decomposes S L" using abbreviates_iff [OF i] by blast
  then have c: "\<forall>L. abbreviates ?a L \<longrightarrow> subseq (filter is_capital L) S"
    using decomposes_capitals by blast
  have x: "\<exists>a. Abbreviation_init ''XRC'' = Inr a \<and> abbreviates a ''X-Ray Cracking''"
    using Abbreviation_init_alpha [OF isalpha_XRC] XRC_abbreviates by simp
  from i m c x Abbreviation_init_invalid [OF assms(2)] show ?thesis by simp
qed

theorem abbreviation_matching_rule_witness:
  "isalpha ''XRCr'' \<and> \<not> isalpha ''X-1'' \<and>
   (\<exists>a. Abbreviation_init ''XRCr'' = Inr a \<and> abbreviates a ''X-Ray Cracking'' \<and>
        decomposes ''XRCr'' ''X-Ray Cracking'' \<and> \<not> abbreviates a ''X-Ray Diffraction'') \<and>
   Abbreviation_init ''X-1'' = Inl (ValueError NonAlphabeticAbbreviation) \<and>
   Abbreviation_init '''' = Inl (ValueError EmptyAbbreviation)"
proof -
  have h1: "isalpha ''XRCr''" by (simp add: isalpha_def isalpha_char_def code_point_def)
  have h2: "\<not> isalpha ''X-1''" by (simp add: isalpha_def isalpha_char_def code_point_def)
  have h3: "\<not> isalpha ''''" by (simp add: isalpha_def)
  let ?a = "\<lparr>string = ''XRCr'', regex = join NON_CAPITALS (pattern_chars ''XRCr'')\<rparr>"
  have e: "Abbreviation_init ''XRCr'' = Inr ?a" using h1 by (rule Abbreviation_init_alpha)
  have m1: "abbreviates ?a ''X-Ray Cracking''"
    by (simp add: abbreviates_def re_match_def pattern_chars_def NON_CAPITALS_def
          is_capital_def code_point_def)
  have m2: "\<not> abbreviates ?a ''X-Ray Diffraction''"
    by (simp add: abbreviates_def re_match_def pattern_chars_def NON_CAPITALS_def
          is_capital_def code_point_def)
  from abbreviation_matching_rule [OF h1 h2] e m1
  have d: "decomposes ''XRCr'' ''X-Ray Cracking''" by simp
  from abbreviation_matching_rule [OF h1 h2] abbreviation_matching_rule [OF h1 h3]
  have inv: "Abbreviation_init ''X-1'' = Inl (ValueError NonAlphabeticAbbreviation)"
    "Abbreviation_init '''' = Inl (ValueError EmptyAbbreviation)" by simp_all
  from h1 h2 e m1 m2 d inv show ?thesis by simp
qed

section \<open>The resolver: proofs\<close>

lemma resolver_call_state: "snd (resolver_call r s) = r"
  by (simp add: resolver_call_def split: option.splits sum.splits)

lemma resolver_call_cached:
  "map_of (lookup_table r) s = Some full \<Longrightarrow> resolver_call r s = (Inr full, r)"
  by (simp add: resolver_call_def)

lemma resolve_abbreviation_cases:
  "resolve_abbreviation r a =
     (case filter (abbreviates a) (string_collection r) of
        [] \<Rightarrow> Inl (ValueError (NoMatches (string a)))
      | [x] \<Rightarrow> Inr x
      | x # y # zs \<Rightarrow> Inl (ValueError (TooManyMatches (string a) (x # y # zs))))"
  by (simp add: resolve_abbreviation_def Let_def split: list.splits)

text \<open>
  Claim C6 (what the code does). A call that finds exactly one candidate returns it and
  leaves \<^verbatim>\<open>lookup_table\<close> empty: the resolution is not cached, and the next call with the
  same shorthand matches the whole collection again.
\<close>

theorem resolver_cache_never_filled:
  "resolver_call (AbbreviationResolver_init [''X-Ray Cracking'', ''Iron Ore'']) ''XRC'' =
     (Inr ''X-Ray Cracking'',
      \<lparr>string_collection = [''X-Ray Cracking'', ''Iron Ore''], lookup_table = []\<rparr>)"
  by (simp add: resolver_call_def AbbreviationResolver_init_def Abbreviation_init_def
        resolve_abbreviation_def isalpha_def isalpha_char_def code_point_def
        abbreviates_def re_match_def pattern_chars_def NON_CAPITALS_def is_capital_def)

section \<open>Recipes: proofs\<close>

lemma hash_int_collision: "hash_int (- 1) = hash_int (- 2)"
  by (simp add: hash_int_def)

text \<open>
  Where the hashes of the ingredients are pairwise different, the stored order does not
  depend on the order of the arguments.
\<close>

lemma filter_eq_replicate: "filter (\<lambda>x. x = k) xs = replicate (count (mset xs) k) k"
  by (induction xs) auto

lemma filter_key_inj:
  assumes "inj_on f (set xs)" "k \<in> set xs"
  shows "filter (\<lambda>x. f k = f x) xs = replicate (count (mset xs) k) k"
proof -
  have "filter (\<lambda>x. f k = f x) xs = filter (\<lambda>x. x = k) xs"
    using assms by (intro filter_cong) (auto dest: inj_onD)
  then show ?thesis by (simp add: filter_eq_replicate)
qed

lemma sorted_by_key_perm:
  assumes inj: "inj_on f (set xs)" and perm: "mset xs = mset ys"
  shows "sorted_by_key f xs = sorted_by_key f ys"
proof -
  have s: "set xs = set ys" using perm by (rule mset_eq_setD)
  have "sort_key f xs = sort_key f ys"
  proof (rule properties_for_sort_key)
    show "mset (sort_key f ys) = mset xs" using perm by simp
    show "sorted (map f (sort_key f ys))" by simp
    fix k assume "k \<in> set (sort_key f ys)"
    then have k: "k \<in> set ys" by simp
    have "filter (\<lambda>x. f k = f x) (sort_key f ys) = filter (\<lambda>x. f k = f x) ys"
      using sort_key_stable [of f "f k" ys] by (simp add: eq_commute)
    also have "\<dots> = replicate (count (mset ys) k) k"
      using filter_key_inj [of f ys k] inj s k by simp
    also have "\<dots> = filter (\<lambda>x. f k = f x) xs"
      using filter_key_inj [of f xs k] inj s k perm by simp
    finally show "filter (\<lambda>x. f k = f x) (sort_key f ys) = filter (\<lambda>x. f k = f x) xs" .
  qed
  then show ?thesis by (simp add: sorted_by_key_def)
qed

lemma Recipe_init_perm:
  assumes "inj_on (hash_ProductQuantity sh th) (set outs \<union> set ins)"
    and "mset outs = mset outs'" and "mset ins = mset ins'"
  shows "Recipe_init sh th (Some n) outs ins per cat = Recipe_init sh th (Some n) outs' ins' per cat"
proof -
  have o: "sorted_by_key (hash_ProductQuantity sh th) outs = sorted_by_key (hash_ProductQuantity sh th) outs'"
    using assms by (intro sorted_by_key_perm) (auto intro: inj_on_subset)
  have i: "sorted_by_key (hash_ProductQuantity sh th) ins = sorted_by_key (hash_ProductQuantity sh th) ins'"
    using assms by (intro sorted_by_key_perm) (auto intro: inj_on_subset)
  have "length outs = length outs'" "length ins = length ins'"
    using assms(2,3) by (auto dest: mset_eq_length)
  with o i show ?thesis by (simp add: Recipe_init_def Let_def)
qed

text \<open>
  Claim C7 (what the code does). The sort key is the hash and the sort is stable, so two
  different ingredients with the same hash stay in the order of the argument list. The
  integers \<open>-1\<close> and \<open>-2\<close> have the same hash, hence so do two quantities of one product
  with these amounts, whatever the hashes of strings and tuples are: the two recipes built
  from the two orders of such a list are different values.
\<close>

theorem recipe_equality_depends_on_order:
  "Recipe_init str_hash tuple_hash (Some ''Sorting'')
      [\<lparr>quantity = - 1, product = \<lparr>Product.name = ''Hydrogen''\<rparr>\<rparr>,
       \<lparr>quantity = - 2, product = \<lparr>Product.name = ''Hydrogen''\<rparr>\<rparr>]
      [\<lparr>quantity = 1, product = \<lparr>Product.name = ''Water''\<rparr>\<rparr>] \<lparr>seconds = 1\<rparr> \<lparr>FacilityCategory.name = ''Smelter''\<rparr>
   \<noteq>
   Recipe_init str_hash tuple_hash (Some ''Sorting'')
      [\<lparr>quantity = - 2, product = \<lparr>Product.name = ''Hydrogen''\<rparr>\<rparr>,
       \<lparr>quantity = - 1, product = \<lparr>Product.name = ''Hydrogen''\<rparr>\<rparr>]
      [\<lparr>quantity = 1, product = \<lparr>Product.name = ''Water''\<rparr>\<rparr>] \<lparr>seconds = 1\<rparr> \<lparr>FacilityCategory.name = ''Smelter''\<rparr>"
  by (simp add: Recipe_init_def strip_def isspace_char_def code_point_def sorted_by_key_def
        hash_ProductQuantity_def hash_int_def)

text \<open>With one output and no name, the recipe is named after the output.\<close>

lemma Recipe_init_sole_output:
  assumes "Recipe_init sh th None [out] ins per cat = Inr r"
  shows "Recipe.name r = strip (pq_name out)"
  using assms by (auto simp: Recipe_init_def Let_def split: if_splits)

lemma Recipe_init_no_name:
  "length outs \<noteq> 1 \<Longrightarrow> Recipe_init sh th None outs ins per cat = Inl (UnboundLocalError ''autoname'')"
  by (simp add: Recipe_init_def)

text \<open>
  Claim C8 (what the code does). With no name and two outputs, the constructor reads the
  local \<^verbatim>\<open>autoname\<close> that was never assigned: the failure is \<^verbatim>\<open>UnboundLocalError\<close>, not a
  \<^verbatim>\<open>ValueError\<close> of the constructor's own checks.
\<close>

theorem recipe_default_name_unbound:
  "Recipe_init str_hash tuple_hash None
      [\<lparr>quantity = 2, product = \<lparr>Product.name = ''Refined Oil''\<rparr>\<rparr>,
       \<lparr>quantity = 1, product = \<lparr>Product.name = ''Hydrogen''\<rparr>\<rparr>]
      [\<lparr>quantity = 2, product = \<lparr>Product.name = ''Crude Oil''\<rparr>\<rparr>]
      \<lparr>seconds = 4\<rparr> \<lparr>FacilityCategory.name = ''Refinery''\<rparr>
   = Inl (UnboundLocalError ''autoname'')"
  by (simp add: Recipe_init_def)

section \<open>The crafter and the factory: proofs\<close>

lemma then_do_simps:
  "then_do None f = None"
  "then_do (Some (Inl e)) f = Some (Inl e)"
  "then_do (Some (Inr v)) f = f v"
  "then_do (return v) f = f v"
  "then_do (raise e) f = raise e"
  by (simp_all add: then_do_def return_def raise_def)

lemma then_do_no_value:
  assumes "\<And>v. m \<noteq> Some (Inr v)"
  shows "then_do m f \<noteq> Some (Inr w)"
  using assms by (cases m) (auto simp: then_do_def split: sum.splits)

lemma compute_rates_crafter:
  "compute_rates c = Inr v \<Longrightarrow> snd v = c\<lparr>rc_rates := fst v\<rparr>"
  by (auto simp: compute_rates_def split: sum.splits)

lemma compute_rates_ignores_map:
  "compute_rates (c\<lparr>rc_rates := d\<rparr>) =
     (case compute_rates c of Inl e \<Rightarrow> Inl e | Inr v \<Rightarrow> Inr (fst v, c\<lparr>rc_rates := fst v\<rparr>))"
  by (auto simp: compute_rates_def split: sum.splits)

lemma rates_some:
  assumes "RecipeCrafter_rates c = Some y"
  shows "rc_rates c = [] \<and> compute_rates c = Inl (projl y) \<and> y = Inl (projl y)"
proof (rule RecipeCrafter_rates.raw_induct
    [where P = "\<lambda>c y. rc_rates c = [] \<and> compute_rates c = Inl (projl y) \<and> y = Inl (projl y)",
      OF _ assms])
  fix rates :: "RecipeCrafter \<Rightarrow> (error + rate_dict \<times> RecipeCrafter) option"
  fix c y
  assume IH: "\<And>x z. rates x = Some z \<Longrightarrow>
      rc_rates x = [] \<and> compute_rates x = Inl (projl z) \<and> z = Inl (projl z)"
  assume body: "(if length (rc_rates c) = 0
      then case compute_rates c of Inl e \<Rightarrow> Some (Inl e) | Inr v \<Rightarrow> rates (snd v)
      else rates c) = Some y"
  show "rc_rates c = [] \<and> compute_rates c = Inl (projl y) \<and> y = Inl (projl y)"
  proof (cases "rc_rates c = []")
    case False
    with body have "rates c = Some y" by simp
    from IH [OF this] False show ?thesis by simp
  next
    case True
    show ?thesis
    proof (cases "compute_rates c")
      case (Inl e)
      with True body show ?thesis by auto
    next
      case (Inr v)
      with True body have "rates (snd v) = Some y" by simp
      from IH [OF this] have "compute_rates (snd v) = Inl (projl y)" by simp
      moreover have "snd v = c\<lparr>rc_rates := fst v\<rparr>" using Inr by (rule compute_rates_crafter)
      ultimately show ?thesis using Inr by (simp add: compute_rates_ignores_map)
    qed
  qed
qed

lemma rates_never_returns: "RecipeCrafter_rates c \<noteq> Some (Inr v)"
  using rates_some [of c "Inr v"] by auto

lemma rates_diverges:
  assumes "rc_rates c \<noteq> [] \<or> (\<exists>v. compute_rates c = Inr v)"
  shows "RecipeCrafter_rates c = None"
proof (cases "RecipeCrafter_rates c")
  case None then show ?thesis .
next
  case (Some y)
  from rates_some [OF this] assms show ?thesis by auto
qed

lemma rates_raises:
  assumes "rc_rates c = []" "compute_rates c = Inl e"
  shows "RecipeCrafter_rates c = Some (Inl e)"
  using assms by (subst RecipeCrafter_rates.simps) simp


lemma then_do_no_value_eq:
  assumes "\<And>v. m \<noteq> Some (Inr v)"
  shows "then_do m f = map_option (\<lambda>y. Inl (projl y)) m"
proof (cases m)
  case None then show ?thesis by (simp add: then_do_def)
next
  case (Some y)
  with assms obtain e where "y = Inl e" by (cases y) auto
  with Some show ?thesis by (simp add: then_do_def)
qed

lemma rates_loop_ok:
  assumes "seconds per \<noteq> 0" "\<forall>x \<in> set xs. quantity x \<noteq> 0"
  shows "\<exists>d'. rates_loop combine per spd many xs d = Inr d'"
  using assms(2)
proof (induction xs arbitrary: d)
  case Nil show ?case by simp
next
  case (Cons x xs)
  from Cons.prems assms(1) obtain r where "Time_rtruediv per (of_int (quantity x)) = Inr r"
    by (auto simp: Time_rtruediv_def Time_div_number_def Rate_of_Time_def fraction_div_def)
  with Cons show ?case by (simp add: Let_def)
qed

lemma compute_rates_ok:
  assumes "seconds (period (recipe c)) \<noteq> 0"
    and "\<forall>x \<in> set (outputs (recipe c) @ inputs (recipe c)). quantity x \<noteq> 0"
  shows "\<exists>v. compute_rates c = Inr v"
proof -
  have o: "\<forall>x \<in> set (outputs (recipe c)). quantity x \<noteq> 0"
    and i: "\<forall>x \<in> set (inputs (recipe c)). quantity x \<noteq> 0"
    using assms(2) by auto
  from rates_loop_ok [OF assms(1) o]
  obtain d1 where d1: "rates_loop Rate_add (period (recipe c)) (speed (facility c))
      (how_many c) (outputs (recipe c)) [] = Inr d1"
    by blast
  from rates_loop_ok [OF assms(1) i]
  obtain d2 where "rates_loop Rate_sub (period (recipe c)) (speed (facility c))
      (how_many c) (inputs (recipe c)) d1 = Inr d2"
    by blast
  with d1 show ?thesis by (simp add: compute_rates_def)
qed

lemma with_goal_eq:
  "with_goal r f g = map_option (\<lambda>y. Inl (projl y))
     (RecipeCrafter_rates \<lparr>recipe = r, facility = f, how_many = 1, rc_rates = []\<rparr>)"
  unfolding with_goal_def Let_def RecipeCrafter_init_def
  by (simp add: then_do_simps then_do_no_value_eq [OF rates_never_returns])

lemma read_rates_eq:
  "read_rates h a = map_option (\<lambda>y. Inl (projl y)) (RecipeCrafter_rates (h a))"
  unfolding read_rates_def by (rule then_do_no_value_eq [OF rates_never_returns])

lemma read_rates_never_returns: "read_rates h a \<noteq> Some (Inr v)"
  by (auto simp: read_rates_eq)

lemma then_do_read_rates:
  "then_do (read_rates h a) f = map_option (\<lambda>y. Inl (projl y)) (RecipeCrafter_rates (h a))"
proof -
  have "then_do (read_rates h a) f = map_option (\<lambda>y. Inl (projl y)) (read_rates h a)"
    by (rule then_do_no_value_eq [OF read_rates_never_returns])
  also have "\<dots> = map_option (\<lambda>y. Inl (projl y)) (RecipeCrafter_rates (h a))"
    by (simp add: read_rates_eq option.map_comp comp_def)
  finally show ?thesis .
qed

lemma crafters_loop_eq:
  "crafters_loop h (a # as) acc = map_option (\<lambda>y. Inl (projl y)) (RecipeCrafter_rates (h a))"
  by (simp add: then_do_read_rates)

lemma not_value_map: "map_option (\<lambda>y. Inl (projl y)) m \<noteq> Some (Inr v)"
  by (cases m) auto

lemma Factory_compute_rates_eq:
  assumes "crafters f = a # as"
  shows "Factory_compute_rates h f =
           map_option (\<lambda>y. Inl (projl y)) (RecipeCrafter_rates (h a))"
proof -
  let ?m = "crafters_loop h (a # as)
              (dict_set [] (product (goal f)) (Rate_neg (quantity (goal f))))"
  have "\<And>v. ?m \<noteq> Some (Inr v)"
    unfolding crafters_loop_eq by (rule not_value_map)
  then have "then_do ?m (\<lambda>(d, h'). return (d, h', f\<lparr>f_rates := d\<rparr>)) =
      map_option (\<lambda>y. Inl (projl y)) ?m"
    by (rule then_do_no_value_eq)
  then show ?thesis unfolding Factory_compute_rates_def assms crafters_loop_eq
    by (simp add: option.map_comp comp_def)
qed

lemma find_crafters_eq:
  assumes "crafters f = a # as"
  shows "find_crafters h f p = map_option (\<lambda>y. Inl (projl y)) (RecipeCrafter_rates (h a))"
  unfolding find_crafters_def assms by (simp add: then_do_read_rates)

lemma upgrade_crafter_eq:
  assumes "rc \<in> set (crafters f)"
  shows "upgrade_crafter h f rc delta =
           map_option (\<lambda>y. Inl (projl y)) (RecipeCrafter_rates (h rc))"
  unfolding upgrade_crafter_def Let_def using assms by (simp add: then_do_read_rates)

lemma iron_compute_ok:
  "\<exists>v. compute_rates \<lparr>recipe = iron_recipe, facility = fa, how_many = n, rc_rates = d\<rparr> = Inr v"
  by (rule compute_rates_ok) (simp_all add: iron_recipe_def)











text \<open>
  Claim C1 (what the code does). On the smelting example, where the unit rate of Iron
  Ingot is \<open>1/s\<close> and so strictly positive, \<^verbatim>\<open>with_goal\<close> reads \<^verbatim>\<open>rc.rates\<close> and that read
  never returns: no crafter is returned.
\<close>

theorem with_goal_never_returns:
  "with_goal iron_recipe arc_smelter iron_goal = None \<and>
   (\<exists>d c. compute_rates \<lparr>recipe = iron_recipe, facility = arc_smelter, how_many = 1,
                         rc_rates = []\<rparr> = Inr (d, c) \<and>
          map_of d iron_ingot = Some \<lparr>per_second = 1\<rparr>)"
proof -
  have "RecipeCrafter_rates \<lparr>recipe = iron_recipe, facility = arc_smelter, how_many = 1,
                            rc_rates = []\<rparr> = None"
    using iron_compute_ok by (intro rates_diverges) simp
  then have "with_goal iron_recipe arc_smelter iron_goal = None" by (simp add: with_goal_eq)
  moreover have "iron_ingot \<noteq> iron_ore" by (simp add: iron_ingot_def iron_ore_def)
  then have "\<exists>d c. compute_rates \<lparr>recipe = iron_recipe, facility = arc_smelter, how_many = 1,
                         rc_rates = []\<rparr> = Inr (d, c) \<and>
          map_of d iron_ingot = Some \<lparr>per_second = 1\<rparr>"
    by (simp add: compute_rates_def iron_recipe_def arc_smelter_def Time_rtruediv_def
        Time_div_number_def Rate_of_Time_def fraction_div_def Rate_mul_number_def
        Rate_add_def Rate_sub_def Rate_zero_def dict_get_def)
  ultimately show ?thesis by blast
qed

text \<open>
  Claim C2, as amended. No read of \<^verbatim>\<open>RecipeCrafter.rates\<close> returns a map. When the
  crafter's map is filled or its \<^verbatim>\<open>_compute_rates\<close> completes, the property re-enters
  itself without end; when \<^verbatim>\<open>_compute_rates\<close> raises (a division by zero), the property
  raises that error. So \<^verbatim>\<open>with_goal\<close> never returns a crafter, and the factory's rate
  aggregation, \<^verbatim>\<open>find_crafters\<close> and \<^verbatim>\<open>upgrade_crafter\<close> never return once the factory holds
  a crafter; with a recipe whose rates can be computed they do not return at all.
\<close>

theorem crafter_rates_never_returns:
  assumes "rc_rates (h rc) \<noteq> [] \<or> (\<exists>v. compute_rates (h rc) = Inr v)"
    and "crafters f = rc # others"
    and "\<exists>v. compute_rates \<lparr>recipe = r, facility = fa, how_many = 1, rc_rates = []\<rparr> = Inr v"
  shows "RecipeCrafter_rates (h rc) = None \<and>
         with_goal r fa g = None \<and>
         Factory_compute_rates h f = None \<and>
         find_crafters h f p = None \<and>
         upgrade_crafter h f rc delta = None \<and>
         (\<forall>c v. RecipeCrafter_rates c \<noteq> Some (Inr v)) \<and>
         (\<forall>c e. rc_rates c = [] \<and> compute_rates c = Inl e \<longrightarrow>
                 RecipeCrafter_rates c = Some (Inl e)) \<and>
         (\<forall>r' fa' g' v. with_goal r' fa' g' \<noteq> Some (Inr v)) \<and>
         (\<forall>h' v. Factory_compute_rates h' f \<noteq> Some (Inr v)) \<and>
         (\<forall>h' p' v. find_crafters h' f p' \<noteq> Some (Inr v)) \<and>
         (\<forall>h' d' v. upgrade_crafter h' f rc d' \<noteq> Some (Inr v))"
proof -
  have d: "RecipeCrafter_rates (h rc) = None" using assms(1) by (rule rates_diverges)
  have w: "with_goal r fa g = None"
    unfolding with_goal_eq using rates_diverges [of "\<lparr>recipe = r, facility = fa, how_many = 1, rc_rates = []\<rparr>"] assms(3)
    by simp
  have m: "rc \<in> set (crafters f)" using assms(2) by simp
  have "Factory_compute_rates h f = None" "find_crafters h f p = None"
    "upgrade_crafter h f rc delta = None"
    using d by (simp_all add: Factory_compute_rates_eq [OF assms(2)]
        find_crafters_eq [OF assms(2)] upgrade_crafter_eq [OF m])
  moreover have "\<forall>c e. rc_rates c = [] \<and> compute_rates c = Inl e \<longrightarrow>
                 RecipeCrafter_rates c = Some (Inl e)"
    using rates_raises by blast
  moreover have "\<forall>r' fa' g' v. with_goal r' fa' g' \<noteq> Some (Inr v)"
    unfolding with_goal_eq using not_value_map by blast
  moreover have "\<forall>h' v. Factory_compute_rates h' f \<noteq> Some (Inr v)"
    unfolding Factory_compute_rates_eq [OF assms(2)] using not_value_map by blast
  moreover have "\<forall>h' p' v. find_crafters h' f p' \<noteq> Some (Inr v)"
    unfolding find_crafters_eq [OF assms(2)] using not_value_map by blast
  moreover have "\<forall>h' d' v. upgrade_crafter h' f rc d' \<noteq> Some (Inr v)"
    unfolding upgrade_crafter_eq [OF m] using not_value_map by blast
  ultimately show ?thesis using d w rates_never_returns by blast
qed

theorem crafter_rates_never_returns_witness:
  "(\<exists>v. compute_rates (iron_heap 0) = Inr v) \<and>
   crafters iron_factory = 0 # [] \<and>
   (\<exists>v. compute_rates \<lparr>recipe = iron_recipe, facility = arc_smelter, how_many = 1,
                        rc_rates = []\<rparr> = Inr v) \<and>
   RecipeCrafter_rates iron_crafter = None \<and>
   with_goal iron_recipe arc_smelter iron_goal = None \<and>
   Factory_compute_rates iron_heap iron_factory = None \<and>
   find_crafters iron_heap iron_factory iron_ingot = None \<and>
   upgrade_crafter iron_heap iron_factory 0 iron_goal = None"
proof -
  have a1: "rc_rates (iron_heap 0) \<noteq> [] \<or> (\<exists>v. compute_rates (iron_heap 0) = Inr v)"
    using iron_compute_ok by (simp add: iron_heap_def iron_crafter_def)
  have a2: "crafters iron_factory = 0 # []" by (simp add: iron_factory_def)
  have a3: "\<exists>v. compute_rates \<lparr>recipe = iron_recipe, facility = arc_smelter, how_many = 1,
                        rc_rates = []\<rparr> = Inr v"
    by (rule iron_compute_ok)
  have a0: "\<exists>v. compute_rates (iron_heap 0) = Inr v"
    using iron_compute_ok by (simp add: iron_heap_def iron_crafter_def)
  from crafter_rates_never_returns [where h = iron_heap and rc = 0 and f = iron_factory
      and others = "[]" and r = iron_recipe and fa = arc_smelter and g = iron_goal
      and p = iron_ingot and delta = iron_goal, OF a1 a2 a3] a0 a2 a3
  show ?thesis by (simp add: iron_heap_def)
qed

text \<open>
  The claim as stated, for every crafter, fails: with an output quantity of zero the
  quotient \<^verbatim>\<open>quantity / period\<close> divides by zero and the read raises.
\<close>

theorem crafter_rates_terminates_counterexample:
  "RecipeCrafter_rates zero_crafter = Some (Inl ZeroDivisionError)"
  by (rule rates_raises)
    (simp_all add: zero_crafter_def zero_recipe_def compute_rates_def Time_rtruediv_def
      Time_div_number_def fraction_div_def iron_recipe_def)

text \<open>
  Claim C4 (what the code does). The crafter at reference \<open>0\<close> is connected and its rate
  of Iron Ingot is \<open>2/s\<close>; a change of \<open>-3/s\<close> would make it negative. The call reads
  \<^verbatim>\<open>rc.rates\<close>, which never returns, so no \<^verbatim>\<open>ValueError\<close> is raised.
\<close>

theorem upgrade_crafter_never_raises:
  "upgrade_crafter iron_heap iron_factory 0 \<lparr>quantity = \<lparr>per_second = - 3\<rparr>, product = iron_ingot\<rparr>
     = None \<and>
   0 \<in> set (crafters iron_factory) \<and>
   (\<exists>d c. compute_rates (iron_heap 0) = Inr (d, c) \<and>
          map_of d iron_ingot = Some \<lparr>per_second = 2\<rparr>)"
proof -
  have m: "0 \<in> set (crafters iron_factory)" by (simp add: iron_factory_def)
  have "RecipeCrafter_rates (iron_heap 0) = None"
    using iron_compute_ok by (intro rates_diverges) (simp add: iron_heap_def iron_crafter_def)
  then have "upgrade_crafter iron_heap iron_factory 0
      \<lparr>quantity = \<lparr>per_second = - 3\<rparr>, product = iron_ingot\<rparr> = None"
    by (simp add: upgrade_crafter_eq [OF m])
  moreover have "iron_ingot \<noteq> iron_ore" by (simp add: iron_ingot_def iron_ore_def)
  then have "\<exists>d c. compute_rates (iron_heap 0) = Inr (d, c) \<and>
          map_of d iron_ingot = Some \<lparr>per_second = 2\<rparr>"
    by (simp add: iron_heap_def iron_crafter_def compute_rates_def iron_recipe_def
        arc_smelter_def Time_rtruediv_def
        Time_div_number_def Rate_of_Time_def fraction_div_def Rate_mul_number_def
        Rate_add_def Rate_sub_def Rate_zero_def dict_get_def)
  ultimately show ?thesis using m by blast
qed

end
